theory Spec2Isabelle
  imports Main
begin

section \<open>ZebraCrossing: a fixed-window rate limiter over Deno KV\<close>

text \<open>
  The development embeds \<^verbatim>\<open>src/main.ts\<close>: the function \<^verbatim>\<open>ZebraCrossing\<close>, which
  takes the options \<^verbatim>\<open>{ windowMs, maxRequests }\<close> and returns a Hono middleware. The
  middleware reads one Deno KV entry, decides, writes the entry back when the request
  passes, sets three response headers and either calls \<^verbatim>\<open>next()\<close> or answers 429.

  The operations on Deno KV are taken to succeed, and calls run one after the other.

  JavaScript numbers are doubles. \<open>Number n\<close> stands for the double whose value is
  the integer \<open>n\<close>, and the arithmetic below is the exact one of the integers. It
  agrees with the arithmetic of doubles as long as the operands and the result are safe
  integers (at most \<open>2\<^sup>5\<^sup>3 - 1\<close> in magnitude); beyond, the code rounds (\<open>2\<^sup>5\<^sup>3 + 1\<close>
  is \<open>2\<^sup>5\<^sup>3\<close>) and the model does not. The properties of counts and of header texts are
  therefore stated for limits and counts in the safe range. \<^verbatim>\<open>NaN\<close> and \<^verbatim>\<open>undefined\<close>
  are kept as values of their own, since the middleware meets them when a stored value
  lacks a field.
\<close>

subsection \<open>JavaScript values of the local variables\<close>

text \<open>
  The values \<^verbatim>\<open>hits\<close> and \<^verbatim>\<open>expiresAt\<close> can take: an integer-valued number,
  \<^verbatim>\<open>NaN\<close>, or \<^verbatim>\<open>undefined\<close> (what reading a missing property yields).
\<close>

datatype jsval = Undefined | Number int | NaN

text \<open>The safe integers, \<^verbatim>\<open>Number.isSafeInteger\<close>: on them the doubles add and
  subtract exactly, as long as the result is safe too; the sum of a safe integer and 1
  is exact throughout.\<close>

definition safe :: "int \<Rightarrow> bool" where
  "safe n = (\<bar>n\<bar> \<le> 9007199254740991)"

text \<open>\<^verbatim>\<open>a > b\<close>: both operands go through ToNumber; \<^verbatim>\<open>undefined\<close> becomes
  \<^verbatim>\<open>NaN\<close>, and every comparison with \<^verbatim>\<open>NaN\<close> is false.\<close>

fun gt :: "jsval \<Rightarrow> jsval \<Rightarrow> bool" where
  "gt (Number a) (Number b) = (a > b)"
| "gt _ _ = False"

text \<open>The value of \<^verbatim>\<open>x\<close> after \<^verbatim>\<open>x++\<close>, exact for a safe \<open>n\<close> (the code stays
  at \<open>2\<^sup>5\<^sup>3\<close> from there on).\<close>

fun incr :: "jsval \<Rightarrow> jsval" where
  "incr (Number n) = Number (n + 1)"
| "incr _ = NaN"

text \<open>\<^verbatim>\<open>a - b\<close>, exact when both numbers and the difference are safe.\<close>

fun minus :: "jsval \<Rightarrow> jsval \<Rightarrow> jsval" where
  "minus (Number a) (Number b) = Number (a - b)"
| "minus _ _ = NaN"

text \<open>Decimal digits of a natural number, most significant first.\<close>

fun digits :: "nat \<Rightarrow> string" where
  "digits n = (if n < 10 then [''0123456789'' ! n]
               else digits (n div 10) @ [''0123456789'' ! (n mod 10)])"

declare digits.simps [simp del]

text \<open>The string of a value. On a number this is \<^verbatim>\<open>n.toString()\<close> for integers
  below \<open>10\<^sup>2\<^sup>1\<close> in magnitude, the safe ones among them; from there on the code
  prints an exponent and the model still prints digits.\<close>

fun ToString :: "jsval \<Rightarrow> string" where
  "ToString Undefined = ''undefined''"
| "ToString NaN = ''NaN''"
| "ToString (Number n) = (if n < 0 then CHR ''-'' # digits (nat (- n)) else digits (nat n))"

declare ToString.simps [simp del]

subsection \<open>Errors, header values and dates\<close>

text \<open>The only exception the middleware can raise: \<^verbatim>\<open>toISOString\<close> on an invalid
  date throws \<^verbatim>\<open>RangeError\<close>.\<close>

datatype error = RangeError

text \<open>A header value is a string. The ISO-8601 text of a time value is not expanded:
  \<open>ISOString t\<close> stands for the text \<^verbatim>\<open>new Date(t).toISOString()\<close> returns.\<close>

datatype hvalue = Str string | ISOString int

text \<open>A time value a \<^verbatim>\<open>Date\<close> can hold: at most 8.64e15 milliseconds from the epoch
  on either side.\<close>

definition valid_time :: "int \<Rightarrow> bool" where
  "valid_time t = (\<bar>t\<bar> \<le> 8640000000000000)"

text \<open>\<^verbatim>\<open>new Date(v).toISOString()\<close>: the constructor clips a number outside the range,
  \<^verbatim>\<open>NaN\<close> and \<^verbatim>\<open>undefined\<close> to an invalid date, on which \<^verbatim>\<open>toISOString\<close> throws.\<close>

fun toISOString :: "jsval \<Rightarrow> error + hvalue" where
  "toISOString (Number t) = (if valid_time t then Inr (ISOString t) else Inl RangeError)"
| "toISOString _ = Inl RangeError"

subsection \<open>Deno KV\<close>

text \<open>
  A value stored in Deno KV, as far as the middleware observes it: whether it is truthy,
  and what reading its properties \<^verbatim>\<open>hits\<close> and \<^verbatim>\<open>expiresAt\<close> yields. A primitive
  (a string, a number, a boolean) is truthy or falsy and has neither property; an object
  is truthy, and a property it lacks reads as \<^verbatim>\<open>undefined\<close>.
\<close>

datatype kvvalue = Prim bool | Obj jsval jsval

fun truthy :: "kvvalue \<Rightarrow> bool" where
  "truthy (Prim b) = b"
| "truthy (Obj h e) = True"

fun hits :: "kvvalue \<Rightarrow> jsval" where
  "hits (Prim b) = Undefined"
| "hits (Obj h e) = h"

fun expiresAt :: "kvvalue \<Rightarrow> jsval" where
  "expiresAt (Prim b) = Undefined"
| "expiresAt (Obj h e) = e"

text \<open>The store maps a key (a list of key parts) to its value; \<^verbatim>\<open>kv.get\<close> of a key
  without an entry returns the value \<^verbatim>\<open>null\<close>.\<close>

type_synonym kvstore = "string list \<rightharpoonup> kvvalue"

text \<open>The operations on Deno KV a call performs, in order. \<open>KvSet\<close> carries the
  \<^verbatim>\<open>expireIn\<close> option of \<^verbatim>\<open>kv.set\<close>, the storage-level time to live.\<close>

datatype kvop = OpenKv | KvGet "string list" | KvSet "string list" kvvalue "int option"

subsection \<open>The request context\<close>

text \<open>What the middleware uses of Hono's \<^verbatim>\<open>Context\<close>: the request headers, the
  remote address \<^verbatim>\<open>getConnInfo(c)\<close> reports, and the headers of the response.\<close>

record Context =
  req_header :: "string \<rightharpoonup> string"
  remote_address :: "string option"
  res_headers :: "string \<rightharpoonup> hvalue"

text \<open>\<^verbatim>\<open>a || b\<close> on values that are a string or \<^verbatim>\<open>undefined\<close>: the empty string
  and \<^verbatim>\<open>undefined\<close> are falsy.\<close>

definition or_else :: "string option \<Rightarrow> string option \<Rightarrow> string option" where
  "or_else a b = (case a of None \<Rightarrow> b | Some s \<Rightarrow> if s = [] then b else a)"

text \<open>Line 40.\<close>

definition clientIp :: "Context \<Rightarrow> string option" where
  "clientIp c =
     or_else (or_else (req_header c ''x-real-ip'') (req_header c ''x-forwarded-for''))
       (remote_address c)"

text \<open>The text a template literal inserts for \<^verbatim>\<open>${clientIp}\<close>: the string itself,
  or the text \<^verbatim>\<open>undefined\<close>. This text is the client key.\<close>

definition clientKey :: "Context \<Rightarrow> string" where
  "clientKey c = (case clientIp c of None \<Rightarrow> ''undefined'' | Some s \<Rightarrow> s)"

text \<open>Line 42: a Deno KV key of one part.\<close>

definition key :: "Context \<Rightarrow> string list" where
  "key c = [''rate-limit:'' @ clientKey c]"

subsection \<open>The middleware\<close>

text \<open>How a call ends: \<^verbatim>\<open>return c.text(body, status)\<close>, \<^verbatim>\<open>await next()\<close>, or an
  exception.\<close>

datatype outcome = Responded string int | CalledNext | Threw error

record result =
  outcome :: outcome
  headers :: "string \<rightharpoonup> hvalue"
  store :: kvstore
  ops :: "kvop list"

text \<open>Lines 45 to 61: \<^verbatim>\<open>hits\<close> and \<^verbatim>\<open>expiresAt\<close> before the increment, from the
  entry read and the current time. The sum \<^verbatim>\<open>currentTime + windowMs\<close> is exact whenever
  it is a time a \<^verbatim>\<open>Date\<close> can hold, which is below \<open>2\<^sup>5\<^sup>3\<close>.\<close>

definition window :: "int \<Rightarrow> int \<Rightarrow> kvvalue option \<Rightarrow> jsval \<times> jsval" where
  "window windowMs currentTime record =
     (case record of
        None \<Rightarrow> (Number 0, Number (currentTime + windowMs))
      | Some v \<Rightarrow>
          if truthy v then
            (if gt (Number currentTime) (expiresAt v)
             then (Number 0, Number (currentTime + windowMs))
             else (hits v, expiresAt v))
          else (Number 0, Number (currentTime + windowMs)))"

text \<open>
  The function \<^verbatim>\<open>ZebraCrossing\<close> returns, lines 32 to 85, with the two captured options
  as parameters, the value of \<^verbatim>\<open>Date.now()\<close> and the contents of Deno KV. On the
  rejecting path \<^verbatim>\<open>toISOString\<close> runs before any header is set (line 68); on the
  other path it runs after \<^verbatim>\<open>kv.set\<close> and after two headers are set (line 81).
\<close>

definition middleware :: "int \<Rightarrow> int \<Rightarrow> Context \<Rightarrow> int \<Rightarrow> kvstore \<Rightarrow> result" where
  "middleware windowMs maxRequests c currentTime kv =
     (let k = key c;
          (hits0, expiresAt) = window windowMs currentTime (kv k);
          hits = incr hits0
      in if gt hits (Number maxRequests) then
           (case toISOString expiresAt of
              Inl e \<Rightarrow>
                \<lparr>outcome = Threw e, headers = res_headers c, store = kv,
                 ops = [OpenKv, KvGet k]\<rparr>
            | Inr resetTime \<Rightarrow>
                \<lparr>outcome = Responded ''Too Many Requests'' 429,
                 headers = (res_headers c)
                   (''X-RateLimit-Limit'' \<mapsto> Str (ToString (Number maxRequests)),
                    ''X-RateLimit-Remaining'' \<mapsto> Str ''0'',
                    ''X-RateLimit-Reset'' \<mapsto> resetTime),
                 store = kv, ops = [OpenKv, KvGet k]\<rparr>)
         else
           (let kv' = kv(k \<mapsto> Obj hits expiresAt);
                log = [OpenKv, KvGet k, KvSet k (Obj hits expiresAt) None];
                hs = (res_headers c)
                   (''X-RateLimit-Limit'' \<mapsto> Str (ToString (Number maxRequests)),
                    ''X-RateLimit-Remaining'' \<mapsto>
                       Str (ToString (minus (Number maxRequests) hits)))
            in case toISOString expiresAt of
                 Inl e \<Rightarrow> \<lparr>outcome = Threw e, headers = hs, store = kv', ops = log\<rparr>
               | Inr resetTime \<Rightarrow>
                   \<lparr>outcome = CalledNext,
                    headers = hs(''X-RateLimit-Reset'' \<mapsto> resetTime),
                    store = kv', ops = log\<rparr>))"

text \<open>The options \<^verbatim>\<open>ZebraCrossing\<close> destructures. Any further property of the object
  passed is the record's extension, which the function never reads.\<close>

record options =
  windowMs :: int
  maxRequests :: int

text \<open>The type \<^verbatim>\<open>Options\<close> of \<^verbatim>\<open>src/types.ts\<close>, over a client type.\<close>

record 'c Options =
  client :: 'c
  prefix :: "string option"
  resetExpiryOnChange :: "bool option"

text \<open>Lines 29 to 32 and 86: the outer function destructures the two options and
  returns the middleware. It has no statement that throws, so its result is never an
  error.\<close>

definition ZebraCrossing ::
  "'a options_scheme \<Rightarrow> error + (Context \<Rightarrow> int \<Rightarrow> kvstore \<Rightarrow> result)" where
  "ZebraCrossing options = Inr (middleware (windowMs options) (maxRequests options))"

text \<open>The framework calls the middleware once per request, here in order on the same
  Deno KV: each request comes with the time \<^verbatim>\<open>Date.now()\<close> returns during its call.\<close>

fun calls :: "int \<Rightarrow> int \<Rightarrow> (Context \<times> int) list \<Rightarrow> kvstore \<Rightarrow> result list" where
  "calls w m [] kv = []"
| "calls w m ((c, t) # cs) kv =
     (let r = middleware w m c t kv in r # calls w m cs (store r))"

subsection \<open>Notions the properties are stated with\<close>

text \<open>A request without proxy headers from a remote address, with no response header
  set yet.\<close>

definition request_from :: "string \<Rightarrow> Context" where
  "request_from ip =
     \<lparr>req_header = Map.empty, remote_address = Some ip, res_headers = Map.empty\<rparr>"

text \<open>What a client observes of a call, and what the call leaves under a key.\<close>

definition view :: "string list \<Rightarrow> result \<Rightarrow> outcome \<times> (string \<rightharpoonup> hvalue) \<times> kvop list \<times> kvvalue option" where
  "view k r = (outcome r, headers r, ops r, store r k)"

text \<open>What the calls for key \<open>k\<close> among the calls \<open>cs\<close> observe, given the results
  \<open>rs\<close> of all the calls.\<close>

definition seen_by ::
  "string list \<Rightarrow> (Context \<times> int) list \<Rightarrow> result list \<Rightarrow>
     (outcome \<times> (string \<rightharpoonup> hvalue) \<times> kvop list \<times> kvvalue option) list" where
  "seen_by k cs rs =
     map (\<lambda>(ct, r). view k r) (filter (\<lambda>(ct, r). key (fst ct) = k) (zip cs rs))"

text \<open>The keys the middleware uses: one part that starts with the prefix.\<close>

definition rate_limit_key :: "string list \<Rightarrow> bool" where
  "rate_limit_key k = (case k of [p] \<Rightarrow> take 11 p = ''rate-limit:'' | _ \<Rightarrow> False)"

text \<open>A stored value whose \<^verbatim>\<open>hits\<close> is a number from 1 to \<^verbatim>\<open>maxRequests\<close>.\<close>

definition hits_in_range :: "int \<Rightarrow> kvvalue \<Rightarrow> bool" where
  "hits_in_range m v = (case hits v of Number h \<Rightarrow> 1 \<le> h \<and> h \<le> m | _ \<Rightarrow> False)"

text \<open>Every rate-limit entry of the store has its \<^verbatim>\<open>hits\<close> in range.\<close>

definition hits_invariant :: "int \<Rightarrow> kvstore \<Rightarrow> bool" where
  "hits_invariant m kv = (\<forall>k v. rate_limit_key k \<and> kv k = Some v \<longrightarrow> hits_in_range m v)"

section \<open>Single calls\<close>

lemma key_request_from: "key (request_from ip) = [''rate-limit:'' @ ip]"
  by (simp add: key_def clientKey_def clientIp_def request_from_def or_else_def)

lemma clientKey_request_from: "clientKey (request_from ip) = ip"
  by (simp add: clientKey_def clientIp_def request_from_def or_else_def)

lemma res_headers_request_from: "res_headers (request_from ip) = Map.empty"
  by (simp add: request_from_def)

lemma window_absent: "window w t None = (Number 0, Number (t + w))"
  by (simp add: window_def)

lemma window_live:
  "t \<le> e \<Longrightarrow> window w t (Some (Obj h (Number e))) = (h, Number e)"
  by (simp add: window_def)

lemma window_expired:
  "e < t \<Longrightarrow> window w t (Some (Obj h (Number e))) = (Number 0, Number (t + w))"
  by (simp add: window_def)

lemma window_falsy:
  "\<not> truthy v \<Longrightarrow> window w t (Some v) = (Number 0, Number (t + w))"
  by (simp add: window_def)


lemma rate_limit_key_key: "rate_limit_key (key c)"
  by (simp add: rate_limit_key_def key_def)

text \<open>A call changes no entry but the one of its key, and depends on no other.\<close>

lemma middleware_frame: "k \<noteq> key c \<Longrightarrow> store (middleware w m c t kv) k = kv k"
  by (simp add: middleware_def Let_def split: prod.splits sum.splits)

lemma middleware_local:
  "kv (key c) = kv' (key c) \<Longrightarrow>
     view (key c) (middleware w m c t kv) = view (key c) (middleware w m c t kv')"
  by (simp add: view_def middleware_def Let_def split: prod.splits sum.splits)

text \<open>The two ways a call with numeric \<^verbatim>\<open>hits\<close> and a valid reset time ends.\<close>

lemma middleware_admit:
  assumes "window w t (kv (key c)) = (Number h, Number e)" and "h + 1 \<le> m" and "valid_time e"
  shows "middleware w m c t kv =
    \<lparr>outcome = CalledNext,
     headers = (res_headers c)
       (''X-RateLimit-Limit'' \<mapsto> Str (ToString (Number m)),
        ''X-RateLimit-Remaining'' \<mapsto> Str (ToString (Number (m - (h + 1)))),
        ''X-RateLimit-Reset'' \<mapsto> ISOString e),
     store = kv(key c \<mapsto> Obj (Number (h + 1)) (Number e)),
     ops = [OpenKv, KvGet (key c), KvSet (key c) (Obj (Number (h + 1)) (Number e)) None]\<rparr>"
  using assms by (simp add: middleware_def Let_def)

lemma middleware_reject:
  assumes "window w t (kv (key c)) = (Number h, Number e)" and "m < h + 1" and "valid_time e"
  shows "middleware w m c t kv =
    \<lparr>outcome = Responded ''Too Many Requests'' 429,
     headers = (res_headers c)
       (''X-RateLimit-Limit'' \<mapsto> Str (ToString (Number m)),
        ''X-RateLimit-Remaining'' \<mapsto> Str ''0'',
        ''X-RateLimit-Reset'' \<mapsto> ISOString e),
     store = kv,
     ops = [OpenKv, KvGet (key c)]\<rparr>"
  using assms by (simp add: middleware_def Let_def)

section \<open>Calls within one window\<close>

text \<open>
  Calls for one key while its record is live (no call later than \<open>e\<close>): call \<open>i\<close>
  passes while the count stays within the limit and is rejected afterwards, and the
  stored count stops growing at the limit.
\<close>

lemma calls_live:
  assumes "kv k = Some (Obj (Number h) (Number e))"
    and "\<forall>(c, t) \<in> set cs. key c = k \<and> t \<le> e"
    and "valid_time e" and "i < length cs"
  shows "calls w m cs kv ! i =
    (if h + int i + 1 \<le> m then
       \<lparr>outcome = CalledNext,
        headers = (res_headers (fst (cs ! i)))
          (''X-RateLimit-Limit'' \<mapsto> Str (ToString (Number m)),
           ''X-RateLimit-Remaining'' \<mapsto> Str (ToString (Number (m - (h + int i + 1)))),
           ''X-RateLimit-Reset'' \<mapsto> ISOString e),
        store = kv(k \<mapsto> Obj (Number (h + int i + 1)) (Number e)),
        ops = [OpenKv, KvGet k, KvSet k (Obj (Number (h + int i + 1)) (Number e)) None]\<rparr>
     else
       \<lparr>outcome = Responded ''Too Many Requests'' 429,
        headers = (res_headers (fst (cs ! i)))
          (''X-RateLimit-Limit'' \<mapsto> Str (ToString (Number m)),
           ''X-RateLimit-Remaining'' \<mapsto> Str ''0'',
           ''X-RateLimit-Reset'' \<mapsto> ISOString e),
        store = kv(k \<mapsto> Obj (Number (max h (min m (h + int i)))) (Number e)),
        ops = [OpenKv, KvGet k]\<rparr>)"
  using assms
proof (induction cs arbitrary: kv h i)
  case Nil
  then show ?case by simp
next
  case (Cons ct cs)
  obtain c t where ct: "ct = (c, t)" by (cases ct)
  from Cons.prems(2) ct have kc: "key c = k" and te: "t \<le> e" by auto
  from Cons.prems(2) have rest: "\<forall>(c, t) \<in> set cs. key c = k \<and> t \<le> e" by auto
  from Cons.prems(1) kc te have win: "window w t (kv (key c)) = (Number h, Number e)"
    by (simp add: window_live)
  show ?case
  proof (cases "h + 1 \<le> m")
    case True
    note r = middleware_admit [of w t kv c h e m, OF win True Cons.prems(3)]
    show ?thesis
    proof (cases i)
      case 0
      with True r ct kc show ?thesis by (simp add: Let_def)
    next
      case (Suc j)
      with Cons.prems(4) have j: "j < length cs" by simp
      let ?kv = "kv(k \<mapsto> Obj (Number (h + 1)) (Number e))"
      have k': "?kv k = Some (Obj (Number (h + 1)) (Number e))"
        by simp
      have step: "calls w m (ct # cs) kv ! i = calls w m cs ?kv ! j"
        using r ct kc Suc by (simp add: Let_def)
      have ar: "h + 1 + int j + 1 = h + int i + 1" "fst ((ct # cs) ! i) = fst (cs ! j)"
        using Suc by simp_all
      have mx: "\<not> h + int i + 1 \<le> m \<Longrightarrow>
          max (h + 1) (min m (h + 1 + int j)) = max h (min m (h + int i))"
        using True Suc by auto
      show ?thesis
        unfolding step Cons.IH [of ?kv "h + 1" j, OF k' rest Cons.prems(3) j] ar
        by (simp add: mx)
    qed
  next
    case False
    then have lt: "m < h + 1" by simp
    note r = middleware_reject [of w t kv c h e m, OF win lt Cons.prems(3)]
    have triv: "kv(k \<mapsto> Obj (Number h) (Number e)) = kv"
      using Cons.prems(1) by (simp add: fun_upd_idem)
    show ?thesis
    proof (cases i)
      case 0
      with lt r ct kc triv show ?thesis by (simp add: Let_def max_def min_def)
    next
      case (Suc j)
      with Cons.prems(4) have j: "j < length cs" by simp
      have mx: "max h (min m (h + int j)) = h" "max h (min m (h + int (Suc j))) = h"
        using lt by auto
      from Cons.IH [of kv h j, OF Cons.prems(1) rest Cons.prems(3) j] lt Suc r ct kc mx
      show ?thesis
        by (simp add: Let_def)
    qed
  qed
qed

text \<open>The scenario of the specification: a window of 60000 ms and two requests per
  window, with calls at 0, 10, 20 and 61000.\<close>

lemma spec_scenario:
  "map outcome (calls 60000 2
      [(request_from ''1.2.3.4'', 0), (request_from ''1.2.3.4'', 10),
       (request_from ''1.2.3.4'', 20), (request_from ''1.2.3.4'', 61000)] Map.empty) =
     [CalledNext, CalledNext, Responded ''Too Many Requests'' 429, CalledNext] \<and>
   map (\<lambda>r. headers r ''X-RateLimit-Remaining'') (calls 60000 2
      [(request_from ''1.2.3.4'', 0), (request_from ''1.2.3.4'', 10),
       (request_from ''1.2.3.4'', 20), (request_from ''1.2.3.4'', 61000)] Map.empty) =
     [Some (Str ''1''), Some (Str ''0''), Some (Str ''0''), Some (Str ''1'')] \<and>
   map (\<lambda>r. headers r ''X-RateLimit-Reset'') (calls 60000 2
      [(request_from ''1.2.3.4'', 0), (request_from ''1.2.3.4'', 10),
       (request_from ''1.2.3.4'', 20), (request_from ''1.2.3.4'', 61000)] Map.empty) =
     [Some (ISOString 60000), Some (ISOString 60000), Some (ISOString 60000),
      Some (ISOString 121000)]"
  by (simp add: middleware_def Let_def key_request_from window_def valid_time_def
      ToString.simps digits.simps)

section \<open>Calls for several keys\<close>

text \<open>Induction over the calls, with two stores that agree on the key observed: a
  call for another key leaves the entry alone, a call for the key sees only that entry.\<close>

lemma seen_by_calls:
  "kv k = kv' k \<Longrightarrow>
     seen_by k cs (calls w m cs kv) =
     map (view k) (calls w m (filter (\<lambda>ct. key (fst ct) = k) cs) kv')"
proof (induction cs arbitrary: kv kv')
  case Nil
  then show ?case by (simp add: seen_by_def)
next
  case (Cons ct cs)
  obtain c t where ct: "ct = (c, t)" by (cases ct)
  show ?case
  proof (cases "key c = k")
    case True
    with Cons.prems have eq: "view k (middleware w m c t kv) = view k (middleware w m c t kv')"
      using middleware_local [of kv c kv' w m t] by simp
    then have "store (middleware w m c t kv) k = store (middleware w m c t kv') k"
      by (simp add: view_def)
    from Cons.IH [of "store (middleware w m c t kv)" "store (middleware w m c t kv')", OF this]
      eq True ct
    show ?thesis
      by (simp add: seen_by_def Let_def)
  next
    case False
    then have "store (middleware w m c t kv) k = kv k"
      using middleware_frame [of k c w m t kv] by auto
    with Cons.prems have "store (middleware w m c t kv) k = kv' k" by simp
    from Cons.IH [of "store (middleware w m c t kv)" kv', OF this] False ct show ?thesis
      by (simp add: seen_by_def Let_def)
  qed
qed

section \<open>The range of the stored count\<close>

lemma middleware_invariant:
  assumes "hits_invariant m kv"
  shows "hits_invariant m (store (middleware w m c t kv)) \<and>
     (\<forall>k v x. KvSet k v x \<in> set (ops (middleware w m c t kv)) \<longrightarrow> hits_in_range m v)"
proof (cases "kv (key c)")
  case None
  with assms show ?thesis
    by (auto simp: middleware_def Let_def window_def hits_invariant_def hits_in_range_def
        split: sum.splits if_splits)
next
  case (Some v)
  with assms rate_limit_key_key [of c] have "hits_in_range m v"
    by (auto simp: hits_invariant_def)
  then obtain h e where v: "v = Obj (Number h) e" and h: "1 \<le> h" "h \<le> m"
    by (cases v) (auto simp: hits_in_range_def split: jsval.splits)
  with assms Some show ?thesis
    by (auto simp: middleware_def Let_def window_def hits_invariant_def hits_in_range_def
        split: sum.splits if_splits)
qed

section \<open>The properties\<close>

text \<open>
  C1. A key without a record (or with an expired one) receives \<open>n\<close> calls, \<open>n\<close> at
  most \<^verbatim>\<open>maxRequests\<close>: the first at \<open>t1\<close>, the others no later than the end
  \<open>t1 + w\<close> of the window the first one opens. Every call passes to \<^verbatim>\<open>next()\<close>; call
  number \<open>i + 1\<close> sets \<^verbatim>\<open>X-RateLimit-Remaining\<close> to \<^verbatim>\<open>maxRequests\<close> minus \<open>i + 1\<close>, so
  the value falls by one per call from \<^verbatim>\<open>maxRequests - 1\<close> to \<^verbatim>\<open>maxRequests - n\<close>, and
  the stored count is \<open>i + 1\<close>. \<^verbatim>\<open>maxRequests\<close> is a safe integer, so that every count
  and every difference is computed exactly, and the end of the window is a time a
  \<^verbatim>\<open>Date\<close> can hold.
\<close>

theorem admitted_countdown:
  assumes "kv (key c1) = None \<or> (\<exists>h e. kv (key c1) = Some (Obj h (Number e)) \<and> e < t1)"
    and "\<forall>(c, t) \<in> set rest. key c = key c1 \<and> t \<le> t1 + w"
    and "int (length rest) + 1 \<le> m"
    and "safe m"
    and "valid_time (t1 + w)"
    and "i \<le> length rest"
  shows "let r = calls w m ((c1, t1) # rest) kv ! i in
     outcome r = CalledNext \<and>
     headers r ''X-RateLimit-Limit'' = Some (Str (ToString (Number m))) \<and>
     headers r ''X-RateLimit-Remaining'' = Some (Str (ToString (Number (m - (int i + 1))))) \<and>
     headers r ''X-RateLimit-Reset'' = Some (ISOString (t1 + w)) \<and>
     store r (key c1) = Some (Obj (Number (int i + 1)) (Number (t1 + w)))"
proof -
  let ?kv = "kv(key c1 \<mapsto> Obj (Number 1) (Number (t1 + w)))"
  from assms(1) have win: "window w t1 (kv (key c1)) = (Number 0, Number (t1 + w))"
    by (auto simp: window_def)
  from assms(3) have "0 + 1 \<le> m" by simp
  note first = middleware_admit [of w t1 kv c1 0 "t1 + w" m, OF win this assms(5)]
  show ?thesis
  proof (cases i)
    case 0
    with first show ?thesis by (simp add: Let_def)
  next
    case (Suc j)
    with assms(6) have j: "j < length rest" by simp
    have k': "?kv (key c1) = Some (Obj (Number 1) (Number (t1 + w)))" by simp
    have step: "calls w m ((c1, t1) # rest) kv ! i = calls w m rest ?kv ! j"
      using first Suc by (simp add: Let_def)
    have le: "1 + int j + 1 \<le> m" using j assms(3) by simp
    have ar: "1 + int j + 1 = int i + 1" using Suc by simp
    show ?thesis
      unfolding step calls_live [of ?kv "key c1" 1 "t1 + w" rest j w m, OF k' assms(2,5) j]
      using le ar by (simp add: Let_def)
  qed
qed

theorem admitted_countdown_witness:
  "outcome (calls 60000 2 [(request_from ''1.2.3.4'', 0), (request_from ''1.2.3.4'', 10)]
      Map.empty ! 1) = CalledNext \<and>
   headers (calls 60000 2 [(request_from ''1.2.3.4'', 0), (request_from ''1.2.3.4'', 10)]
      Map.empty ! 1) ''X-RateLimit-Remaining'' = Some (Str ''0'') \<and>
   store (calls 60000 2 [(request_from ''1.2.3.4'', 0), (request_from ''1.2.3.4'', 10)]
      Map.empty ! 1) [''rate-limit:1.2.3.4''] = Some (Obj (Number 2) (Number 60000))"
  using admitted_countdown [where kv = Map.empty and ?c1.0 = "request_from ''1.2.3.4''"
      and rest = "[(request_from ''1.2.3.4'', 10)]" and ?t1.0 = 0 and w = 60000 and m = 2
      and i = 1]
  by (simp add: key_request_from valid_time_def safe_def Let_def ToString.simps digits.simps)

text \<open>
  C2. When the store has no entry for the key of the request, or has a record whose
  \<^verbatim>\<open>expiresAt\<close> is a number below the current time, the call opens a fresh window: it
  passes to \<^verbatim>\<open>next()\<close>, and the record it writes and the headers it sets have
  \<^verbatim>\<open>hits\<close> 1 and \<^verbatim>\<open>expiresAt\<close> equal to the current time plus \<^verbatim>\<open>windowMs\<close>. This holds
  for \<^verbatim>\<open>maxRequests\<close> at least 1, and a new end of window that a \<^verbatim>\<open>Date\<close> can hold.
\<close>

theorem fresh_window_admitted:
  assumes "kv (key c) = None \<or> (\<exists>h e. kv (key c) = Some (Obj h (Number e)) \<and> e < t)"
    and "1 \<le> m" and "valid_time (t + w)"
  shows "middleware w m c t kv =
    \<lparr>outcome = CalledNext,
     headers = (res_headers c)
       (''X-RateLimit-Limit'' \<mapsto> Str (ToString (Number m)),
        ''X-RateLimit-Remaining'' \<mapsto> Str (ToString (Number (m - 1))),
        ''X-RateLimit-Reset'' \<mapsto> ISOString (t + w)),
     store = kv(key c \<mapsto> Obj (Number 1) (Number (t + w))),
     ops = [OpenKv, KvGet (key c), KvSet (key c) (Obj (Number 1) (Number (t + w))) None]\<rparr>"
proof -
  from assms(1) have "window w t (kv (key c)) = (Number 0, Number (t + w))"
    by (auto simp: window_def)
  with assms(2,3) middleware_admit [of w t kv c 0 "t + w" m] show ?thesis
    by simp
qed

theorem fresh_window_admitted_witness:
  "middleware 60000 2 (request_from ''1.2.3.4'') 61000
     [[''rate-limit:1.2.3.4''] \<mapsto> Obj (Number 2) (Number 60000)] =
    \<lparr>outcome = CalledNext,
     headers =
       [''X-RateLimit-Limit'' \<mapsto> Str ''2'',
        ''X-RateLimit-Remaining'' \<mapsto> Str ''1'',
        ''X-RateLimit-Reset'' \<mapsto> ISOString 121000],
     store = [[''rate-limit:1.2.3.4''] \<mapsto> Obj (Number 1) (Number 121000)],
     ops = [OpenKv, KvGet [''rate-limit:1.2.3.4''],
            KvSet [''rate-limit:1.2.3.4''] (Obj (Number 1) (Number 121000)) None]\<rparr>"
  using fresh_window_admitted [of "[[''rate-limit:1.2.3.4''] \<mapsto> Obj (Number 2) (Number 60000)]"
      "request_from ''1.2.3.4''" 61000 2 60000]
  by (simp add: key_request_from res_headers_request_from valid_time_def ToString.simps
      digits.simps)

text \<open>
  C3. A window opens with a call at \<open>t1\<close> for a key without a record or with an expired
  one. After \<^verbatim>\<open>maxRequests\<close> calls in that window, the next call in it (the last of
  \<^verbatim>\<open>maxRequests + 1\<close> calls) is answered with the text \<^verbatim>\<open>Too Many Requests\<close> and
  status 429; \<^verbatim>\<open>next()\<close> is not called, \<^verbatim>\<open>X-RateLimit-Remaining\<close> is \<^verbatim>\<open>0\<close>,
  \<^verbatim>\<open>X-RateLimit-Limit\<close> is \<^verbatim>\<open>maxRequests\<close> and \<^verbatim>\<open>X-RateLimit-Reset\<close> is the end of
  the window; the call reads the store and does not write it. \<^verbatim>\<open>maxRequests\<close> is a safe
  integer, so that the count \<^verbatim>\<open>maxRequests + 1\<close> is computed exactly, and the end of
  the window is a time a \<^verbatim>\<open>Date\<close> can hold.
\<close>

theorem over_limit_rejected:
  assumes "kv (key c1) = None \<or> (\<exists>h e. kv (key c1) = Some (Obj h (Number e)) \<and> e < t1)"
    and "\<forall>(c, t) \<in> set rest. key c = key c1 \<and> t \<le> t1 + w"
    and "int (length rest) = m"
    and "safe m"
    and "valid_time (t1 + w)"
  shows "let r = calls w m ((c1, t1) # rest) kv ! length rest in
     outcome r = Responded ''Too Many Requests'' 429 \<and>
     outcome r \<noteq> CalledNext \<and>
     headers r ''X-RateLimit-Limit'' = Some (Str (ToString (Number m))) \<and>
     headers r ''X-RateLimit-Remaining'' = Some (Str ''0'') \<and>
     headers r ''X-RateLimit-Reset'' = Some (ISOString (t1 + w)) \<and>
     ops r = [OpenKv, KvGet (key c1)]"
proof -
  let ?kv = "kv(key c1 \<mapsto> Obj (Number 1) (Number (t1 + w)))"
  from assms(1) have win: "window w t1 (kv (key c1)) = (Number 0, Number (t1 + w))"
    by (auto simp: window_def)
  show ?thesis
  proof (cases rest)
    case Nil
    with assms(3) have "m < 0 + 1" by simp
    from middleware_reject [of w t1 kv c1 0 "t1 + w" m, OF win this assms(5)] Nil
    show ?thesis by (simp add: Let_def)
  next
    case (Cons x xs)
    with assms(3) have "0 + 1 \<le> m" by simp
    note first = middleware_admit [of w t1 kv c1 0 "t1 + w" m, OF win this assms(5)]
    from Cons obtain j where j: "length rest = Suc j" "j < length rest" by simp
    have k': "?kv (key c1) = Some (Obj (Number 1) (Number (t1 + w)))" by simp
    have step: "calls w m ((c1, t1) # rest) kv ! length rest = calls w m rest ?kv ! j"
      using first j by (simp add: Let_def)
    have gt: "\<not> 1 + int j + 1 \<le> m" using j assms(3) by simp
    show ?thesis
      unfolding step calls_live [of ?kv "key c1" 1 "t1 + w" rest j w m, OF k' assms(2,5) j(2)]
      using gt by (simp add: Let_def)
  qed
qed

theorem over_limit_rejected_witness:
  "outcome (calls 60000 2 [(request_from ''1.2.3.4'', 61000), (request_from ''1.2.3.4'', 61010),
      (request_from ''1.2.3.4'', 61020)]
      [[''rate-limit:1.2.3.4''] \<mapsto> Obj (Number 2) (Number 60000)] ! 2) =
     Responded ''Too Many Requests'' 429 \<and>
   headers (calls 60000 2 [(request_from ''1.2.3.4'', 61000), (request_from ''1.2.3.4'', 61010),
      (request_from ''1.2.3.4'', 61020)]
      [[''rate-limit:1.2.3.4''] \<mapsto> Obj (Number 2) (Number 60000)] ! 2)
      ''X-RateLimit-Remaining'' = Some (Str ''0'') \<and>
   headers (calls 60000 2 [(request_from ''1.2.3.4'', 61000), (request_from ''1.2.3.4'', 61010),
      (request_from ''1.2.3.4'', 61020)]
      [[''rate-limit:1.2.3.4''] \<mapsto> Obj (Number 2) (Number 60000)] ! 2)
      ''X-RateLimit-Reset'' = Some (ISOString 121000) \<and>
   ops (calls 60000 2 [(request_from ''1.2.3.4'', 61000), (request_from ''1.2.3.4'', 61010),
      (request_from ''1.2.3.4'', 61020)]
      [[''rate-limit:1.2.3.4''] \<mapsto> Obj (Number 2) (Number 60000)] ! 2) =
     [OpenKv, KvGet [''rate-limit:1.2.3.4'']]"
  using over_limit_rejected
    [where kv = "[[''rate-limit:1.2.3.4''] \<mapsto> Obj (Number 2) (Number 60000)]"
      and ?c1.0 = "request_from ''1.2.3.4''"
      and rest = "[(request_from ''1.2.3.4'', 61010), (request_from ''1.2.3.4'', 61020)]"
      and ?t1.0 = 61000 and w = 60000 and m = 2]
  by (simp add: key_request_from valid_time_def safe_def Let_def)




text \<open>
  C5, as the code has it. A rejected call increments only the local count that the limit
  test reads; it writes nothing. With a live record whose count has reached
  \<^verbatim>\<open>maxRequests\<close>, every further call in the window is rejected and leaves the store as
  it was, so later calls read the same count: rejected requests do not add to it. The
  stored count is a safe integer, so that the increment is computed exactly.
\<close>

theorem rejections_leave_count:
  assumes "kv k = Some (Obj (Number h) (Number e))" and "m \<le> h" and "safe h"
    and "\<forall>(c, t) \<in> set cs. key c = k \<and> t \<le> e"
    and "valid_time e" and "i < length cs"
  shows "outcome (calls w m cs kv ! i) = Responded ''Too Many Requests'' 429 \<and>
     store (calls w m cs kv ! i) = kv"
proof -
  from assms(2) have no: "\<not> h + int i + 1 \<le> m" and mx: "max h (min m (h + int i)) = h"
    by auto
  from assms(1) have "kv(k \<mapsto> Obj (Number h) (Number e)) = kv"
    by (simp add: fun_upd_idem)
  with calls_live [of kv k h e cs i w m, OF assms(1,4,5,6)] no mx show ?thesis
    by simp
qed

theorem rejections_leave_count_witness:
  "outcome (calls 60000 2 [(request_from ''1.2.3.4'', 20), (request_from ''1.2.3.4'', 30)]
      [[''rate-limit:1.2.3.4''] \<mapsto> Obj (Number 2) (Number 60000)] ! 1) =
     Responded ''Too Many Requests'' 429 \<and>
   store (calls 60000 2 [(request_from ''1.2.3.4'', 20), (request_from ''1.2.3.4'', 30)]
      [[''rate-limit:1.2.3.4''] \<mapsto> Obj (Number 2) (Number 60000)] ! 1) =
     [[''rate-limit:1.2.3.4''] \<mapsto> Obj (Number 2) (Number 60000)]"
  using rejections_leave_count
    [where kv = "[[''rate-limit:1.2.3.4''] \<mapsto> Obj (Number 2) (Number 60000)]"
      and k = "[''rate-limit:1.2.3.4'']" and h = 2 and e = 60000 and m = 2 and w = 60000
      and cs = "[(request_from ''1.2.3.4'', 20), (request_from ''1.2.3.4'', 30)]" and i = 1]
  by (simp add: key_request_from valid_time_def safe_def)

text \<open>
  C5, as stated, fails: with \<^verbatim>\<open>maxRequests\<close> 2 and a live record of 2 hits, a call is
  rejected and the stored count is still 2, not 3.
\<close>

theorem rejected_hit_not_stored:
  "outcome (middleware 60000 2 (request_from ''1.2.3.4'') 20
      [[''rate-limit:1.2.3.4''] \<mapsto> Obj (Number 2) (Number 60000)]) =
     Responded ''Too Many Requests'' 429 \<and>
   store (middleware 60000 2 (request_from ''1.2.3.4'') 20
      [[''rate-limit:1.2.3.4''] \<mapsto> Obj (Number 2) (Number 60000)]) [''rate-limit:1.2.3.4''] =
     Some (Obj (Number 2) (Number 60000)) \<and>
   store (middleware 60000 2 (request_from ''1.2.3.4'') 20
      [[''rate-limit:1.2.3.4''] \<mapsto> Obj (Number 2) (Number 60000)]) [''rate-limit:1.2.3.4''] \<noteq>
     Some (Obj (Number 3) (Number 60000))"
  by (simp add: middleware_def Let_def key_request_from window_def valid_time_def)

text \<open>
  C6, as the code has it. The only test of the stored value is its truthiness (line 53).
  A falsy value (such as \<^verbatim>\<open>0\<close>, the empty string or \<^verbatim>\<open>false\<close>) is treated as no
  record: the call has the outcome, the headers and the store operations it has without
  the entry, for \<^verbatim>\<open>maxRequests\<close> at least 1 it leaves the same store, and when the new
  end of window is a time a \<^verbatim>\<open>Date\<close> can hold it passes as the first call of a fresh
  window. A truthy value with neither \<^verbatim>\<open>hits\<close> nor \<^verbatim>\<open>expiresAt\<close> is not treated as
  absent: \<^verbatim>\<open>hits\<close> becomes \<^verbatim>\<open>NaN\<close>, the limit test does not reject, the record
  \<^verbatim>\<open>{hits: NaN, expiresAt: undefined}\<close> is written, and \<^verbatim>\<open>toISOString\<close> throws.
\<close>

theorem falsy_value_as_absent:
  "let r = middleware w m c t kv; r0 = middleware w m c t (kv(key c := None)) in
     (kv (key c) = Some v \<and> \<not> truthy v \<longrightarrow>
        outcome r = outcome r0 \<and> headers r = headers r0 \<and> ops r = ops r0 \<and>
        (1 \<le> m \<longrightarrow> store r = store r0) \<and>
        (1 \<le> m \<and> valid_time (t + w) \<longrightarrow>
           outcome r = CalledNext \<and>
           store r = kv(key c \<mapsto> Obj (Number 1) (Number (t + w))))) \<and>
     (kv (key c) = Some v \<and> truthy v \<and> hits v = Undefined \<and> expiresAt v = Undefined \<longrightarrow>
        outcome r = Threw RangeError \<and> store r = kv(key c \<mapsto> Obj NaN Undefined))"
  by (auto simp: middleware_def Let_def window_def split: prod.splits sum.splits)

theorem falsy_value_as_absent_witness:
  "outcome (middleware 60000 2 (request_from ''1.2.3.4'') 5
      [[''rate-limit:1.2.3.4''] \<mapsto> Prim False]) = CalledNext \<and>
   store (middleware 60000 2 (request_from ''1.2.3.4'') 5
      [[''rate-limit:1.2.3.4''] \<mapsto> Prim False]) =
     [[''rate-limit:1.2.3.4''] \<mapsto> Obj (Number 1) (Number 60005)] \<and>
   outcome (middleware 60000 2 (request_from ''1.2.3.4'') 5
      [[''rate-limit:1.2.3.4''] \<mapsto> Prim True]) = Threw RangeError \<and>
   store (middleware 60000 2 (request_from ''1.2.3.4'') 5
      [[''rate-limit:1.2.3.4''] \<mapsto> Prim True]) =
     [[''rate-limit:1.2.3.4''] \<mapsto> Obj NaN Undefined]"
  using falsy_value_as_absent [of 60000 2 "request_from ''1.2.3.4''" 5
      "[[''rate-limit:1.2.3.4''] \<mapsto> Prim False]" "Prim False"]
    falsy_value_as_absent [of 60000 2 "request_from ''1.2.3.4''" 5
      "[[''rate-limit:1.2.3.4''] \<mapsto> Prim True]" "Prim True"]
  by (auto simp: Let_def key_request_from valid_time_def)

text \<open>
  C6, as stated, fails: with the stored value \<^verbatim>\<open>{}\<close>, an object with neither property,
  the call throws \<^verbatim>\<open>RangeError\<close> after writing a record with \<^verbatim>\<open>hits\<close> \<^verbatim>\<open>NaN\<close>, where
  the same call without a record passes and writes the first record of a window.
\<close>

theorem malformed_record_throws:
  "outcome (middleware 60000 2 (request_from ''1.2.3.4'') 5
      [[''rate-limit:1.2.3.4''] \<mapsto> Obj Undefined Undefined]) = Threw RangeError \<and>
   store (middleware 60000 2 (request_from ''1.2.3.4'') 5
      [[''rate-limit:1.2.3.4''] \<mapsto> Obj Undefined Undefined]) [''rate-limit:1.2.3.4''] =
     Some (Obj NaN Undefined) \<and>
   outcome (middleware 60000 2 (request_from ''1.2.3.4'') 5 Map.empty) = CalledNext \<and>
   store (middleware 60000 2 (request_from ''1.2.3.4'') 5 Map.empty) [''rate-limit:1.2.3.4''] =
     Some (Obj (Number 1) (Number 60005))"
  by (simp add: middleware_def Let_def key_request_from window_def valid_time_def)

text \<open>
  C7, as the code has it. \<^verbatim>\<open>ZebraCrossing\<close> validates nothing: for every options
  object, also one with \<^verbatim>\<open>windowMs\<close> or \<^verbatim>\<open>maxRequests\<close> zero or negative, it returns the
  middleware over the two values. With \<^verbatim>\<open>maxRequests\<close> zero or negative, a call for a
  key without a record is answered 429 when the end of its window is a time a \<^verbatim>\<open>Date\<close>
  can hold.
\<close>

theorem construction_never_fails:
  "ZebraCrossing options = Inr (middleware (windowMs options) (maxRequests options)) \<and>
   (maxRequests options \<le> 0 \<and> kv (key c) = None \<and> valid_time (t + windowMs options) \<longrightarrow>
      outcome (middleware (windowMs options) (maxRequests options) c t kv) =
        Responded ''Too Many Requests'' 429)"
  by (simp add: ZebraCrossing_def middleware_def Let_def window_def)

theorem construction_never_fails_witness:
  "ZebraCrossing \<lparr>windowMs = 0, maxRequests = - 1\<rparr> = Inr (middleware 0 (- 1)) \<and>
   outcome (middleware 0 (- 1) (request_from ''1.2.3.4'') 5 Map.empty) =
     Responded ''Too Many Requests'' 429"
  using construction_never_fails [of "\<lparr>windowMs = 0, maxRequests = - 1\<rparr>" Map.empty
      "request_from ''1.2.3.4''" 5]
  by (simp add: valid_time_def)

text \<open>
  C7, as stated, fails: the construction with \<^verbatim>\<open>windowMs\<close> 0 and \<^verbatim>\<open>maxRequests\<close> 0
  returns a middleware, not an error.
\<close>

theorem invalid_configuration_accepted:
  "ZebraCrossing \<lparr>windowMs = 0, maxRequests = 0\<rparr> = Inr (middleware 0 0) \<and>
   \<not> isl (ZebraCrossing \<lparr>windowMs = 0, maxRequests = 0\<rparr>)"
  by (simp add: ZebraCrossing_def)

text \<open>
  C8, as the code has it. \<^verbatim>\<open>ZebraCrossing\<close> reads \<^verbatim>\<open>windowMs\<close> and \<^verbatim>\<open>maxRequests\<close> and
  nothing else of the object it is given: the middleware is the one of the two options
  alone. Every write a call performs is \<^verbatim>\<open>kv.set(key, { hits, expiresAt })\<close> without
  \<^verbatim>\<open>expireIn\<close>: no storage-level time to live is set.
\<close>

theorem options_ignored_no_ttl:
  "ZebraCrossing options = ZebraCrossing (options.truncate options) \<and>
   (\<forall>k v x. KvSet k v x \<in> set (ops (projr (ZebraCrossing options) c t kv)) \<longrightarrow> x = None)"
  by (auto simp: ZebraCrossing_def options.truncate_def middleware_def Let_def
      split: prod.splits sum.splits if_splits)

theorem options_ignored_no_ttl_witness:
  "ZebraCrossing
      \<lparr>windowMs = 60000, maxRequests = 2,
       \<dots> = \<lparr>client = (), prefix = None, resetExpiryOnChange = Some True\<rparr>\<rparr> =
    ZebraCrossing \<lparr>windowMs = 60000, maxRequests = 2\<rparr> \<and>
   KvSet [''rate-limit:1.2.3.4''] (Obj (Number 1) (Number 60000)) None
     \<in> set (ops (projr (ZebraCrossing
      \<lparr>windowMs = 60000, maxRequests = 2,
       \<dots> = \<lparr>client = (), prefix = None, resetExpiryOnChange = Some True\<rparr>\<rparr>)
      (request_from ''1.2.3.4'') 0 Map.empty))"
proof -
  have "KvSet [''rate-limit:1.2.3.4''] (Obj (Number 1) (Number 60000)) None
     \<in> set (ops (projr (ZebraCrossing
      \<lparr>windowMs = 60000, maxRequests = 2,
       \<dots> = \<lparr>client = (), prefix = None, resetExpiryOnChange = Some True\<rparr>\<rparr>)
      (request_from ''1.2.3.4'') 0 Map.empty))"
    by (simp add: ZebraCrossing_def middleware_def Let_def key_request_from window_def
        valid_time_def)
  with options_ignored_no_ttl [of
      "\<lparr>windowMs = 60000, maxRequests = 2,
       \<dots> = \<lparr>client = (), prefix = None, resetExpiryOnChange = Some True\<rparr>\<rparr>"
      "request_from ''1.2.3.4''" 0 Map.empty]
  show ?thesis by (simp add: options.truncate_def)
qed

text \<open>
  C8, as stated, fails: given an object that carries \<^verbatim>\<open>resetExpiryOnChange: true\<close>
  beside the two options, the write of a passing call has no \<^verbatim>\<open>expireIn\<close>, where the
  statement asks for 60000.
\<close>

theorem write_without_ttl:
  "ops (projr (ZebraCrossing
      \<lparr>windowMs = 60000, maxRequests = 2,
       \<dots> = \<lparr>client = (), prefix = None, resetExpiryOnChange = Some True\<rparr>\<rparr>)
      (request_from ''1.2.3.4'') 0 Map.empty) =
     [OpenKv, KvGet [''rate-limit:1.2.3.4''],
      KvSet [''rate-limit:1.2.3.4''] (Obj (Number 1) (Number 60000)) None] \<and>
   outcome (projr (ZebraCrossing
      \<lparr>windowMs = 60000, maxRequests = 2,
       \<dots> = \<lparr>client = (), prefix = None, resetExpiryOnChange = Some True\<rparr>\<rparr>)
      (request_from ''1.2.3.4'') 0 Map.empty) = CalledNext"
  by (simp add: ZebraCrossing_def middleware_def Let_def key_request_from window_def
      valid_time_def)

text \<open>
  C9. The storage key of a call is the one-part key made of the prefix
  \<^verbatim>\<open>rate-limit:\<close> and the client key, so distinct client keys have distinct storage
  keys. A call leaves every entry but the one of its key unchanged, reads and writes no
  other key, and what it returns and stores at its key depends on that entry alone.
  Hence, in any sequence of calls, what the calls for a key observe (outcome, headers,
  store operations, stored record) is what they observe when the calls for all other
  keys are left out.
\<close>

theorem keys_isolated:
  "key c = [''rate-limit:'' @ clientKey c] \<and>
   (clientKey c \<noteq> clientKey c' \<longrightarrow> key c \<noteq> key c') \<and>
   (\<forall>k. k \<noteq> key c \<longrightarrow> store (middleware w m c t kv) k = kv k) \<and>
   (\<forall>k v x. KvGet k \<in> set (ops (middleware w m c t kv)) \<or>
            KvSet k v x \<in> set (ops (middleware w m c t kv)) \<longrightarrow> k = key c) \<and>
   (kv (key c) = kv' (key c) \<longrightarrow>
      view (key c) (middleware w m c t kv) = view (key c) (middleware w m c t kv')) \<and>
   seen_by k cs (calls w m cs kv) =
     map (view k) (calls w m (filter (\<lambda>ct. key (fst ct) = k) cs) kv)"
proof -
  have "\<forall>k v x. KvGet k \<in> set (ops (middleware w m c t kv)) \<or>
            KvSet k v x \<in> set (ops (middleware w m c t kv)) \<longrightarrow> k = key c"
    by (auto simp: middleware_def Let_def split: prod.splits sum.splits if_splits)
  moreover have "key c = [''rate-limit:'' @ clientKey c]"
    by (simp add: key_def)
  moreover have "clientKey c \<noteq> clientKey c' \<longrightarrow> key c \<noteq> key c'"
    by (simp add: key_def)
  ultimately show ?thesis
    using middleware_frame [of _ c w m t kv] middleware_local [of kv c kv' w m t]
      seen_by_calls [of kv k kv cs w m]
    by simp
qed

theorem keys_isolated_witness:
  "key (request_from ''1.2.3.4'') \<noteq> key (request_from ''5.6.7.8'') \<and>
   store (middleware 60000 2 (request_from ''1.2.3.4'') 0
      [[''rate-limit:5.6.7.8''] \<mapsto> Obj (Number 2) (Number 500)]) [''rate-limit:5.6.7.8''] =
     Some (Obj (Number 2) (Number 500)) \<and>
   seen_by [''rate-limit:5.6.7.8'']
      [(request_from ''1.2.3.4'', 0), (request_from ''5.6.7.8'', 10), (request_from ''1.2.3.4'', 20)]
      (calls 60000 2
        [(request_from ''1.2.3.4'', 0), (request_from ''5.6.7.8'', 10), (request_from ''1.2.3.4'', 20)]
        Map.empty) =
     map (view [''rate-limit:5.6.7.8'']) (calls 60000 2 [(request_from ''5.6.7.8'', 10)] Map.empty)"
  using keys_isolated [where c = "request_from ''1.2.3.4''" and c' = "request_from ''5.6.7.8''"
      and w = 60000 and m = 2 and t = 0
      and kv = "[[''rate-limit:5.6.7.8''] \<mapsto> Obj (Number 2) (Number 500)]"]
    keys_isolated [where k = "[''rate-limit:5.6.7.8'']" and w = 60000 and m = 2
      and kv = Map.empty
      and cs = "[(request_from ''1.2.3.4'', 0), (request_from ''5.6.7.8'', 10),
                 (request_from ''1.2.3.4'', 20)]"]
  by (simp add: key_request_from clientKey_request_from)

text \<open>
  C10. If every rate-limit entry of the store has its \<^verbatim>\<open>hits\<close> from 1 to
  \<^verbatim>\<open>maxRequests\<close>, then through any sequence of calls every record written has its
  \<^verbatim>\<open>hits\<close> in that range, and so has every rate-limit entry of every store reached.
\<close>

theorem hits_stay_in_range:
  assumes "hits_invariant m kv"
  shows "\<forall>r \<in> set (calls w m cs kv).
     hits_invariant m (store r) \<and>
     (\<forall>k v x. KvSet k v x \<in> set (ops r) \<longrightarrow> hits_in_range m v)"
  using assms
proof (induction cs arbitrary: kv)
  case Nil
  then show ?case by simp
next
  case (Cons ct cs)
  obtain c t where ct: "ct = (c, t)" by (cases ct)
  note step = middleware_invariant [OF Cons.prems, of w c t]
  from Cons.IH [of "store (middleware w m c t kv)"] step ct show ?case
    by (simp add: Let_def)
qed

theorem hits_stay_in_range_witness:
  "hits_invariant 2 [[''rate-limit:1.2.3.4''] \<mapsto> Obj (Number 1) (Number 60000)] \<and>
   hits_invariant 2 (store (calls 60000 2
      [(request_from ''1.2.3.4'', 10), (request_from ''1.2.3.4'', 20)]
      [[''rate-limit:1.2.3.4''] \<mapsto> Obj (Number 1) (Number 60000)] ! 1))"
proof -
  have inv0: "hits_invariant 2 [[''rate-limit:1.2.3.4''] \<mapsto> Obj (Number 1) (Number 60000)]"
    by (auto simp: hits_invariant_def hits_in_range_def split: if_splits)
  from hits_stay_in_range [OF inv0, of 60000
      "[(request_from ''1.2.3.4'', 10), (request_from ''1.2.3.4'', 20)]"] inv0
  show ?thesis by (simp add: Let_def)
qed

end
